theory Spec2Isabelle
  imports Main
begin

section \<open>JavaScript values\<close>

text \<open>
  The handlers of \<^verbatim>\<open>server.ts\<close> work on untyped JSON: request bodies, query strings,
  the parsed \<^verbatim>\<open>users.json\<close> and the task objects themselves (the \<^verbatim>\<open>Task\<close> interface is
  erased at run time, and \<^verbatim>\<open>PUT /task/:id\<close> merges any body into a task).  A value is
  therefore one of the JavaScript values that can occur there.  Numbers are the
  integers (the only numbers the handlers compute are list lengths and parsed ids);
  \<open>JDate\<close> carries the clock reading of \<^verbatim>\<open>new Date()\<close> in milliseconds.  An object is
  its list of own properties in insertion order.
\<close>

datatype jsval =
    JUndefined
  | JNull
  | JBool bool
  | JNum int
  | JStr string
  | JDate int
  | JArr "jsval list"
  | JObj "(string \<times> jsval) list"

type_synonym obj = "(string \<times> jsval) list"

text \<open>Truthiness, as tested by \<^verbatim>\<open>!x\<close> and \<^verbatim>\<open>if (x)\<close>.\<close>

fun truthy :: "jsval \<Rightarrow> bool" where
  "truthy JUndefined = False"
| "truthy JNull = False"
| "truthy (JBool b) = b"
| "truthy (JNum n) = (n \<noteq> 0)"
| "truthy (JStr s) = (s \<noteq> [])"
| "truthy (JDate _) = True"
| "truthy (JArr _) = True"
| "truthy (JObj _) = True"

text \<open>
  Strict equality \<^verbatim>\<open>===\<close>.  Primitives compare by value.  Dates, arrays and objects
  compare by reference; every comparison in the source is between a stored value and
  a value parsed from the current request, which are never the same reference.
\<close>

definition strict_eq :: "jsval \<Rightarrow> jsval \<Rightarrow> bool" where
  "strict_eq x y =
    (case (x, y) of
       (JUndefined, JUndefined) \<Rightarrow> True
     | (JNull, JNull) \<Rightarrow> True
     | (JBool a, JBool b) \<Rightarrow> a = b
     | (JNum a, JNum b) \<Rightarrow> a = b
     | (JStr a, JStr b) \<Rightarrow> a = b
     | _ \<Rightarrow> False)"

text \<open>Property read \<^verbatim>\<open>o.k\<close>: \<^verbatim>\<open>undefined\<close> when the object has no such property.\<close>

definition get_prop :: "obj \<Rightarrow> string \<Rightarrow> jsval" where
  "get_prop ob k = (case map_of ob k of None \<Rightarrow> JUndefined | Some v \<Rightarrow> v)"

text \<open>
  Property write: an existing property keeps its position and takes the new value, a
  new property goes to the end.
\<close>

fun set_prop :: "string \<Rightarrow> jsval \<Rightarrow> obj \<Rightarrow> obj" where
  "set_prop k v [] = [(k, v)]"
| "set_prop k v (p # ps) = (if fst p = k then (k, v) # ps else p # set_prop k v ps)"

text \<open>Object spread \<^verbatim>\<open>{ ...a, ...b }\<close>: the properties of \<open>b\<close> are written onto a copy of \<open>a\<close>.\<close>

definition spread :: "obj \<Rightarrow> obj \<Rightarrow> obj" where
  "spread a b = fold (\<lambda>(k, v). set_prop k v) b a"

text \<open>\<^verbatim>\<open>Array.prototype.findIndex\<close>, with \<open>None\<close> for the result \<^verbatim>\<open>-1\<close>.\<close>

fun findIndex :: "('a \<Rightarrow> bool) \<Rightarrow> 'a list \<Rightarrow> nat option" where
  "findIndex P [] = None"
| "findIndex P (x # xs) = (if P x then Some 0 else map_option Suc (findIndex P xs))"

text \<open>\<^verbatim>\<open>xs.splice(n, 1)\<close>: the list without its element at index \<open>n\<close>.\<close>

definition splice1 :: "nat \<Rightarrow> 'a list \<Rightarrow> 'a list" where
  "splice1 n xs = take n xs @ drop (Suc n) xs"

section \<open>Server state and responses\<close>

text \<open>
  The state of the process is the content of \<^verbatim>\<open>users.json\<close> (\<open>None\<close> when the file is
  missing or does not parse) and the module variable \<^verbatim>\<open>tasks\<close>.  A response is its status
  code and its JSON body before serialisation (\<open>None\<close> for a response without body).
\<close>

record server =
  users_file :: "obj list option"
  tasks :: "obj list"

record response =
  status :: nat
  body :: "jsval option"

definition init :: server where
  "init = \<lparr>users_file = None, tasks = []\<rparr>"

definition json :: "nat \<Rightarrow> jsval \<Rightarrow> response" where
  "json code v = \<lparr>status = code, body = Some v\<rparr>"

definition sendStatus :: "nat \<Rightarrow> response" where
  "sendStatus code = \<lparr>status = code, body = None\<rparr>"

definition message :: "string \<Rightarrow> jsval" where
  "message m = JObj [(''message'', JStr m)]"

section \<open>Credential store\<close>

definition readUsers :: "server \<Rightarrow> obj list" where
  "readUsers s = (case users_file s of None \<Rightarrow> [] | Some us \<Rightarrow> us)"

definition writeUsers :: "obj list \<Rightarrow> server \<Rightarrow> server" where
  "writeUsers us s = s\<lparr>users_file := Some us\<rparr>"

text \<open>
  The \<^verbatim>\<open>bcrypt\<close> package is a parameter of the handlers: \<open>hashSync pw rounds salt\<close> is the
  hash string for the random salt it draws, \<open>compareSync pw h\<close> its verification.  Both
  throw on a password that is not a string, which Express turns into the response of
  the error middleware (status 500).
\<close>

record 's bcrypt =
  hashSync :: "string \<Rightarrow> nat \<Rightarrow> 's \<Rightarrow> string"
  compareSync :: "string \<Rightarrow> string \<Rightarrow> bool"

definition bcrypt_verifies :: "'s bcrypt \<Rightarrow> bool" where
  "bcrypt_verifies B = (\<forall>pw rounds salt. compareSync B pw (hashSync B pw rounds salt))"

definition internal_error :: response where
  "internal_error = json 500 (message ''Internal Server Error'')"

definition register :: "'s bcrypt \<Rightarrow> 's \<Rightarrow> server \<Rightarrow> obj \<Rightarrow> server \<times> response" where
  "register B salt s reqBody =
    (let username = get_prop reqBody ''username''; password = get_prop reqBody ''password'' in
     if \<not> truthy username \<or> \<not> truthy password
     then (s, json 400 (message ''Username and password are required''))
     else
       let users = readUsers s in
       if list_ex (\<lambda>user. strict_eq (get_prop user ''username'') username) users
       then (s, json 409 (message ''Username already exists''))
       else
         (case password of
            JStr pw \<Rightarrow>
              let hashedPassword = hashSync B pw 10 salt;
                  newUser = [(''username'', username), (''password'', JStr hashedPassword)]
              in (writeUsers (users @ [newUser]) s,
                  json 201 (message ''User registered successfully''))
          | _ \<Rightarrow> (s, internal_error)))"

definition login :: "'s bcrypt \<Rightarrow> server \<Rightarrow> obj \<Rightarrow> server \<times> response" where
  "login B s reqBody =
    (let username = get_prop reqBody ''username''; password = get_prop reqBody ''password'' in
     if \<not> truthy username \<or> \<not> truthy password
     then (s, json 400 (message ''Username and password are required''))
     else
       (case List.find (\<lambda>u. strict_eq (get_prop u ''username'') username) (readUsers s) of
          None \<Rightarrow> (s, json 401 (message ''Invalid username or password''))
        | Some user \<Rightarrow>
            (case (password, get_prop user ''password'') of
               (JStr pw, JStr h) \<Rightarrow>
                 if \<not> compareSync B pw h
                 then (s, json 401 (message ''Invalid username or password''))
                 else (s, json 200 (message ''Login successful''))
             | _ \<Rightarrow> (s, internal_error))))"

section \<open>Task registry\<close>

text \<open>
  \<open>taskId\<close> is the value of \<^verbatim>\<open>parseInt(req.params.id)\<close>: \<open>Some i\<close> for the integer \<open>i\<close>,
  \<open>None\<close> for \<^verbatim>\<open>NaN\<close>, which is strictly equal to nothing.
\<close>

definition id_is :: "int option \<Rightarrow> obj \<Rightarrow> bool" where
  "id_is taskId task =
    (case taskId of None \<Rightarrow> False | Some i \<Rightarrow> strict_eq (get_prop task ''id'') (JNum i))"

definition not_found :: response where
  "not_found = json 404 (message ''Task not found'')"

definition task_create :: "server \<Rightarrow> obj \<Rightarrow> int \<Rightarrow> server \<times> response" where
  "task_create s reqBody now =
    (let newTask =
       [(''id'', JNum (int (length (tasks s)) + 1)),
        (''title'', get_prop reqBody ''title''),
        (''description'', get_prop reqBody ''description''),
        (''creationDate'', JDate now),
        (''dueDate'', get_prop reqBody ''dueDate''),
        (''assignedTo'', get_prop reqBody ''assignedTo''),
        (''category'', get_prop reqBody ''category''),
        (''status'', JStr ''Pending'')]
     in (s\<lparr>tasks := tasks s @ [newTask]\<rparr>, json 201 (JObj newTask)))"

definition task_get :: "server \<Rightarrow> int option \<Rightarrow> server \<times> response" where
  "task_get s taskId =
    (case List.find (id_is taskId) (tasks s) of
       Some task \<Rightarrow> (s, json 200 (JObj task))
     | None \<Rightarrow> (s, not_found))"

definition task_update :: "server \<Rightarrow> int option \<Rightarrow> obj \<Rightarrow> server \<times> response" where
  "task_update s taskId reqBody =
    (case findIndex (id_is taskId) (tasks s) of
       Some taskIndex \<Rightarrow>
         let merged = spread (tasks s ! taskIndex) reqBody
         in (s\<lparr>tasks := (tasks s)[taskIndex := merged]\<rparr>, json 200 (JObj merged))
     | None \<Rightarrow> (s, not_found))"

definition task_delete :: "server \<Rightarrow> int option \<Rightarrow> server \<times> response" where
  "task_delete s taskId =
    (case findIndex (id_is taskId) (tasks s) of
       Some taskIndex \<Rightarrow> (s\<lparr>tasks := splice1 taskIndex (tasks s)\<rparr>, sendStatus 204)
     | None \<Rightarrow> (s, not_found))"

definition tasks_list :: "server \<Rightarrow> obj \<Rightarrow> server \<times> response" where
  "tasks_list s query =
    (let assignedTo = get_prop query ''assignedTo'';
         category = get_prop query ''category'';
         filteredTasks = tasks s;
         filteredTasks =
           (if truthy assignedTo
            then filter (\<lambda>task. strict_eq (get_prop task ''assignedTo'') assignedTo) filteredTasks
            else filteredTasks);
         filteredTasks =
           (if truthy category
            then filter (\<lambda>task. strict_eq (get_prop task ''category'') category) filteredTasks
            else filteredTasks)
     in if truthy assignedTo \<or> truthy category
        then (s, json 200 (JArr (map JObj filteredTasks)))
        else (s, json 200 (JArr (map JObj (tasks s)))))"

section \<open>Sequences of registry operations\<close>

datatype op =
    Create obj int
  | Update "int option" obj
  | Delete "int option"

fun apply_op :: "server \<Rightarrow> op \<Rightarrow> server \<times> response" where
  "apply_op s (Create reqBody now) = task_create s reqBody now"
| "apply_op s (Update taskId reqBody) = task_update s taskId reqBody"
| "apply_op s (Delete taskId) = task_delete s taskId"

text \<open>The responses of a sequence of operations, each run on the state its predecessor left.\<close>

fun run :: "server \<Rightarrow> op list \<Rightarrow> response list" where
  "run s [] = []"
| "run s (x # xs) = (let (s', r) = apply_op s x in r # run s' xs)"

fun final :: "server \<Rightarrow> op list \<Rightarrow> server" where
  "final s [] = s"
| "final s (x # xs) = final (fst (apply_op s x)) xs"

text \<open>The \<^verbatim>\<open>id\<close> of the task in a response body, when it is an integer.\<close>

definition returned_id :: "response \<Rightarrow> int option" where
  "returned_id r =
    (case body r of
       Some (JObj task) \<Rightarrow> (case get_prop task ''id'' of JNum i \<Rightarrow> Some i | _ \<Rightarrow> None)
     | _ \<Rightarrow> None)"

definition is_create :: "op \<Rightarrow> bool" where
  "is_create x = (case x of Create _ _ \<Rightarrow> True | _ \<Rightarrow> False)"

section \<open>Requests and the listing as the specification words it\<close>

text \<open>The body \<^verbatim>\<open>{ username: u, password: p }\<close> of a registration or login request.\<close>

definition creds :: "string \<Rightarrow> string \<Rightarrow> obj" where
  "creds u p = [(''username'', JStr u), (''password'', JStr p)]"

text \<open>
  The parsed query string of \<^verbatim>\<open>GET /tasks\<close> with each of the two parameters absent or
  given once with a string value.
\<close>

definition query_of :: "string option \<Rightarrow> string option \<Rightarrow> obj" where
  "query_of a c =
    (case a of None \<Rightarrow> [] | Some v \<Rightarrow> [(''assignedTo'', JStr v)]) @
    (case c of None \<Rightarrow> [] | Some v \<Rightarrow> [(''category'', JStr v)])"

text \<open>
  The specification of the listing: a task is listed when it satisfies every clause
  that is given, and the result keeps the order of the registry.
\<close>

definition matches :: "string option \<Rightarrow> string option \<Rightarrow> obj \<Rightarrow> bool" where
  "matches a c task =
    ((case a of None \<Rightarrow> True | Some v \<Rightarrow> get_prop task ''assignedTo'' = JStr v) \<and>
     (case c of None \<Rightarrow> True | Some v \<Rightarrow> get_prop task ''category'' = JStr v))"

definition list_spec :: "server \<Rightarrow> string option \<Rightarrow> string option \<Rightarrow> server \<times> response" where
  "list_spec s a c = (s, json 200 (JArr (map JObj (filter (matches a c) (tasks s)))))"

section \<open>Example states\<close>

text \<open>
  A stand-in for \<^verbatim>\<open>bcrypt\<close> used to run the handlers on concrete requests: the hash is
  the password behind a marker, whatever the salt.
\<close>

definition stub_bcrypt :: "nat bcrypt" where
  "stub_bcrypt = \<lparr>hashSync = (\<lambda>pw rounds salt. CHR ''$'' # pw),
                  compareSync = (\<lambda>pw h. h = CHR ''$'' # pw)\<rparr>"

definition alice_registered :: server where
  "alice_registered = fst (register stub_bcrypt 0 init (creds ''alice'' ''secret''))"

definition one_task :: server where
  "one_task = final init [Create [(''title'', JStr ''t''), (''assignedTo'', JStr ''alice'')] 1]"

definition duplicate_ids :: server where
  "duplicate_ids =
    final init [Create [(''title'', JStr ''a'')] 1, Create [(''title'', JStr ''b'')] 2,
                Update (Some 2) [(''id'', JNum 1)]]"

definition reuse_ops :: "op list" where
  "reuse_ops = [Create [(''title'', JStr ''a'')] 1, Create [(''title'', JStr ''b'')] 2,
                Delete (Some 1), Create [(''title'', JStr ''c'')] 3]"

section \<open>Basic facts\<close>

lemma strict_eq_JStr [simp]: "strict_eq x (JStr v) = (x = JStr v)"
  by (cases x) (auto simp: strict_eq_def)

lemma strict_eq_JNum [simp]: "strict_eq x (JNum i) = (x = JNum i)"
  by (cases x) (auto simp: strict_eq_def)

lemma get_prop_Nil [simp]: "get_prop [] k = JUndefined"
  by (simp add: get_prop_def)

lemma get_prop_Cons [simp]: "get_prop ((k, v) # ob) k' = (if k = k' then v else get_prop ob k')"
  by (simp add: get_prop_def)

lemma get_prop_creds [simp]:
  "get_prop (creds u p) ''username'' = JStr u"
  "get_prop (creds u p) ''password'' = JStr p"
  by (simp_all add: creds_def)

lemma get_prop_query_of:
  "get_prop (query_of a c) ''assignedTo'' = (case a of None \<Rightarrow> JUndefined | Some v \<Rightarrow> JStr v)"
  "get_prop (query_of a c) ''category'' = (case c of None \<Rightarrow> JUndefined | Some v \<Rightarrow> JStr v)"
  by (auto simp: query_of_def split: option.splits)

lemma readUsers_writeUsers [simp]: "readUsers (writeUsers us s) = us"
  by (simp add: readUsers_def writeUsers_def)

lemma readUsers_init [simp]: "readUsers init = []"
  by (simp add: readUsers_def init_def)

lemma readUsers_alice_registered:
  "readUsers alice_registered = [[(''username'', JStr ''alice''), (''password'', JStr ''$secret'')]]"
  by (simp add: alice_registered_def register_def stub_bcrypt_def Let_def)

lemma tasks_one_task:
  "tasks one_task =
    [[(''id'', JNum 1), (''title'', JStr ''t''), (''description'', JUndefined),
      (''creationDate'', JDate 1), (''dueDate'', JUndefined), (''assignedTo'', JStr ''alice''),
      (''category'', JUndefined), (''status'', JStr ''Pending'')]]"
  by (simp add: one_task_def init_def task_create_def Let_def)

subsection \<open>Searching and removing\<close>

lemma findIndex_Some:
  "findIndex P xs = Some n \<Longrightarrow> n < length xs \<and> P (xs ! n) \<and> (\<forall>m<n. \<not> P (xs ! m))"
proof (induction xs arbitrary: n)
  case Nil
  then show ?case by simp
next
  case (Cons x xs)
  show ?case
  proof (cases "P x")
    case True
    with Cons.prems show ?thesis by simp
  next
    case False
    with Cons.prems obtain k where k: "findIndex P xs = Some k" "n = Suc k" by auto
    from Cons.IH [OF k(1)] False k(2) show ?thesis
      by (auto simp: less_Suc_eq_0_disj)
  qed
qed

lemma findIndex_None: "findIndex P xs = None \<longleftrightarrow> (\<forall>x\<in>set xs. \<not> P x)"
  by (induction xs) auto

lemma find_findIndex: "List.find P xs = map_option (\<lambda>n. xs ! n) (findIndex P xs)"
  by (induction xs) (auto simp: option.map_comp comp_def)

lemma findIndex_update:
  "findIndex P xs = Some n \<Longrightarrow> P y \<Longrightarrow> findIndex P (xs[n := y]) = Some n"
proof (induction xs arbitrary: n)
  case Nil
  then show ?case by simp
next
  case (Cons x xs)
  then show ?case by (cases "P x") auto
qed

lemma filter_splice1:
  "findIndex P xs = Some n \<Longrightarrow> filter P (splice1 n xs) = tl (filter P xs)"
proof (induction xs arbitrary: n)
  case Nil
  then show ?case by simp
next
  case (Cons x xs)
  show ?case
  proof (cases "P x")
    case True
    with Cons.prems show ?thesis by (simp add: splice1_def)
  next
    case False
    with Cons.prems obtain k where k: "findIndex P xs = Some k" "n = Suc k" by auto
    from Cons.IH [OF k(1)] False k(2) show ?thesis by (simp add: splice1_def)
  qed
qed

lemma find_append_new:
  "\<not> list_ex P xs \<Longrightarrow> P y \<Longrightarrow> List.find P (xs @ [y]) = Some y"
  by (induction xs) auto

subsection \<open>Object spread\<close>

lemma map_of_set_prop: "map_of (set_prop k v ob) = (map_of ob)(k \<mapsto> v)"
  by (induction ob) (auto simp: fun_eq_iff)

lemma map_of_spread:
  "distinct (map fst b) \<Longrightarrow> map_of (spread a b) = map_of a ++ map_of b"
  unfolding spread_def
proof (induction b arbitrary: a)
  case Nil
  then show ?case by simp
next
  case (Cons p b)
  obtain k v where p: "p = (k, v)" by (cases p)
  from Cons.prems p have fresh: "map_of b k = None" and dist: "distinct (map fst b)"
    by (auto simp: map_of_eq_None_iff)
  show ?case
    using fresh
    by (auto simp: p Cons.IH [OF dist] map_of_set_prop fun_eq_iff map_add_def
        split: option.splits)
qed

lemma get_prop_spread:
  assumes "distinct (map fst b)"
  shows "get_prop (spread a b) k = (case map_of b k of Some x \<Rightarrow> x | None \<Rightarrow> get_prop a k)"
  by (simp add: get_prop_def map_of_spread [OF assms] map_add_def split: option.splits)

subsection \<open>Runs of creates\<close>

lemma returned_id_create:
  "returned_id (snd (task_create s b now)) = Some (int (length (tasks s)) + 1)"
  by (simp add: task_create_def returned_id_def json_def Let_def)

lemma length_tasks_create:
  "length (tasks (fst (task_create s b now))) = Suc (length (tasks s))"
  by (simp add: task_create_def Let_def)

lemma run_creates_nth:
  "list_all is_create ops \<Longrightarrow> k < length ops \<Longrightarrow>
   returned_id (run s ops ! k) = Some (int (length (tasks s)) + 1 + int k)"
proof (induction ops arbitrary: s k)
  case Nil
  then show ?case by simp
next
  case (Cons x xs)
  from Cons.prems(1) obtain b now where x: "x = Create b now"
    by (cases x) (auto simp: is_create_def)
  obtain s' r where sr: "task_create s b now = (s', r)" by (cases "task_create s b now")
  have r: "returned_id r = Some (int (length (tasks s)) + 1)"
    using returned_id_create [of s b now] sr by simp
  have len: "length (tasks s') = Suc (length (tasks s))"
    using length_tasks_create [of s b now] sr by simp
  show ?case
  proof (cases k)
    case 0
    then show ?thesis using x sr r by simp
  next
    case (Suc m)
    with Cons.prems have "m < length xs" "list_all is_create xs" by auto
    from Cons.IH [OF this(2) this(1), of s'] show ?thesis
      using x sr Suc len by simp
  qed
qed

lemma list_all_is_create_map: "list_all is_create (map (\<lambda>(b, now). Create b now) reqs)"
  by (induction reqs) (auto simp: is_create_def)

section \<open>Task identifiers\<close>

text \<open>
  C1.  The claim: along every sequence of creates, updates and deletes from the empty
  registry the ids of the stored tasks are pairwise different, an id is never given
  out twice, and a create assigns the largest id so far plus one.  The handler assigns
  \<^verbatim>\<open>tasks.length + 1\<close>, which is the largest id plus one only as long as nothing was
  deleted.  After two creates and the deletion of task 1 the registry holds one task,
  with id 2, and the next create returns id 2 again: the registry then holds two
  different tasks with id 2, where the claim requires the new id to be 3.
\<close>

theorem id_reused_after_delete:
  "map returned_id (run init reuse_ops) = [Some 1, Some 2, None, Some 2] \<and>
   map (\<lambda>t. get_prop t ''id'') (tasks (final init reuse_ops)) = [JNum 2, JNum 2] \<and>
   map (\<lambda>t. get_prop t ''title'') (tasks (final init reuse_ops)) = [JStr ''b'', JStr ''c'']"
  by (simp add: reuse_ops_def init_def task_create_def task_delete_def returned_id_def json_def
      sendStatus_def id_is_def splice1_def Let_def)

text \<open>
  C2.  In a sequence of creates, run from any state of the registry, every create
  returns an id, and the id returned by a later create is strictly greater than the id
  returned by an earlier one.
\<close>

theorem create_ids_strictly_increase:
  assumes "i < j" and "j < length reqs"
  shows "\<exists>a b. returned_id (run s (map (\<lambda>(b, now). Create b now) reqs) ! i) = Some a \<and>
               returned_id (run s (map (\<lambda>(b, now). Create b now) reqs) ! j) = Some b \<and>
               a < b"
  using assms
    run_creates_nth [OF list_all_is_create_map, of i reqs s]
    run_creates_nth [OF list_all_is_create_map, of j reqs s]
  by simp

theorem create_ids_strictly_increase_witness:
  "(0::nat) < 1 \<and> 1 < length [([], 0), ([(''title'', JStr ''a'')], 5 :: int)] \<and>
   (\<exists>a b. returned_id (run one_task (map (\<lambda>(b, now). Create b now)
              [([], 0), ([(''title'', JStr ''a'')], 5)]) ! 0) = Some a \<and>
          returned_id (run one_task (map (\<lambda>(b, now). Create b now)
              [([], 0), ([(''title'', JStr ''a'')], 5)]) ! 1) = Some b \<and>
          a < b)"
  using create_ids_strictly_increase [of 0 1 "[([], 0), ([(''title'', JStr ''a'')], 5)]" one_task]
  by simp

section \<open>Listing tasks\<close>

text \<open>
  C3.  The claim: for every filter the listing returns exactly the tasks that satisfy
  all clauses given, in the order of the registry, with status 200.  The handler tests
  each parameter for truthiness before filtering, so a parameter given with the empty
  string as value filters nothing: with one task assigned to alice in the registry,
  \<^verbatim>\<open>GET /tasks?assignedTo=\<close> returns that task, although its \<^verbatim>\<open>assignedTo\<close> is not the
  empty string.
\<close>

theorem list_empty_value_counterexample:
  "tasks_list one_task (query_of (Some '''') None) \<noteq> list_spec one_task (Some '''') None"
  by (simp add: one_task_def init_def task_create_def tasks_list_def list_spec_def query_of_def
      matches_def [abs_def] json_def Let_def)

text \<open>
  C3, amended.  For every registry and every filter whose given values are not the
  empty string, the listing returns, with status 200 and in the order of the
  registry, exactly the tasks that satisfy all clauses given; with no clause given
  these are all tasks.
\<close>

theorem list_returns_matching_tasks:
  assumes "a \<noteq> Some ''''" and "c \<noteq> Some ''''"
  shows "tasks_list s (query_of a c) = list_spec s a c"
proof -
  have "filter (matches a c) (tasks s) = tasks s" if "a = None" "c = None"
    using that by (simp add: matches_def [abs_def])
  then show ?thesis
    using assms
    by (cases a; cases c)
       (simp_all add: tasks_list_def list_spec_def get_prop_query_of matches_def [abs_def] Let_def)
qed

theorem list_returns_matching_tasks_witness:
  "Some ''alice'' \<noteq> Some '''' \<and> (None :: string option) \<noteq> Some '''' \<and>
   tasks_list one_task (query_of (Some ''alice'') None) = list_spec one_task (Some ''alice'') None \<and>
   list_spec one_task (Some ''alice'') None = (one_task, json 200 (JArr (map JObj (tasks one_task))))"
  using list_returns_matching_tasks [of "Some ''alice''" None one_task]
  by (simp add: list_spec_def matches_def [abs_def] one_task_def init_def task_create_def Let_def)

text \<open>
  C10.  A parameter of \<^verbatim>\<open>GET /tasks\<close> given with the empty string as value is treated as
  if it were absent, whatever the other parameter is; with \<^verbatim>\<open>assignedTo\<close> empty and no
  category the listing is the whole registry, tasks assigned to somebody included.
\<close>

theorem empty_filter_value_is_absent:
  "tasks_list s (query_of (Some '''') c) = tasks_list s (query_of None c) \<and>
   tasks_list s (query_of a (Some '''')) = tasks_list s (query_of a None) \<and>
   tasks_list s (query_of (Some '''') None) = (s, json 200 (JArr (map JObj (tasks s))))"
  by (simp add: tasks_list_def get_prop_query_of Let_def split: option.splits)

section \<open>Updating a task\<close>

text \<open>
  C4.  The claim: after updating task \<open>i\<close> with fields \<open>{a: x}\<close>, fetching \<open>i\<close> yields the
  old task with field \<open>a\<close> set to \<open>x\<close>.  The merge does not protect \<^verbatim>\<open>id\<close>: updating task
  1 with \<^verbatim>\<open>{id: 2}\<close> succeeds, and fetching task 1 afterwards answers 404.
\<close>

theorem update_id_counterexample:
  "List.find (id_is (Some 1)) (tasks one_task) \<noteq> None \<and>
   status (snd (task_update one_task (Some 1) [(''id'', JNum 2)])) = 200 \<and>
   task_get (fst (task_update one_task (Some 1) [(''id'', JNum 2)])) (Some 1)
     = (fst (task_update one_task (Some 1) [(''id'', JNum 2)]), not_found) \<and>
   status not_found = 404"
  by (simp add: one_task_def init_def task_create_def task_update_def task_get_def id_is_def
      spread_def json_def not_found_def Let_def)

text \<open>
  C4, amended.  Let \<open>t\<close> be the task that fetching \<open>i\<close> returns, and let the body of the
  update be an object (its keys distinct) that does not give \<^verbatim>\<open>id\<close> a value other than
  \<open>i\<close>.  Then the update answers 200, fetching \<open>i\<close> afterwards answers 200 with a task
  that has every field of the body at the value the body gives and every other field
  at the value it has in \<open>t\<close>, and the registry differs from the old one only at the
  position of \<open>t\<close>.
\<close>

theorem update_then_get:
  assumes found: "List.find (id_is (Some i)) (tasks s) = Some t"
    and dist: "distinct (map fst b)"
    and keep: "map_of b ''id'' = None \<or> map_of b ''id'' = Some (JNum i)"
  shows "\<exists>n t'. n < length (tasks s) \<and> tasks s ! n = t \<and>
           task_update s (Some i) b = (s\<lparr>tasks := (tasks s)[n := t']\<rparr>, json 200 (JObj t')) \<and>
           task_get (s\<lparr>tasks := (tasks s)[n := t']\<rparr>) (Some i)
             = (s\<lparr>tasks := (tasks s)[n := t']\<rparr>, json 200 (JObj t')) \<and>
           (\<forall>k. get_prop t' k = (case map_of b k of Some x \<Rightarrow> x | None \<Rightarrow> get_prop t k))"
proof -
  from found obtain n where n: "findIndex (id_is (Some i)) (tasks s) = Some n" "tasks s ! n = t"
    by (auto simp: find_findIndex)
  from findIndex_Some [OF n(1)] have bound: "n < length (tasks s)" and "id_is (Some i) t"
    using n(2) by auto
  then have idt: "get_prop t ''id'' = JNum i"
    by (simp add: id_is_def)
  define t' where "t' = spread t b"
  have fields: "get_prop t' k = (case map_of b k of Some x \<Rightarrow> x | None \<Rightarrow> get_prop t k)" for k
    unfolding t'_def by (rule get_prop_spread [OF dist])
  have "get_prop t' ''id'' = JNum i"
    using keep idt by (auto simp: fields)
  then have "id_is (Some i) t'"
    by (simp add: id_is_def)
  from findIndex_update [OF n(1) this]
  have get: "List.find (id_is (Some i)) ((tasks s)[n := t']) = Some t'"
    using bound by (simp add: find_findIndex)
  have upd: "task_update s (Some i) b = (s\<lparr>tasks := (tasks s)[n := t']\<rparr>, json 200 (JObj t'))"
    using n by (simp add: task_update_def Let_def t'_def)
  have "task_get (s\<lparr>tasks := (tasks s)[n := t']\<rparr>) (Some i)
          = (s\<lparr>tasks := (tasks s)[n := t']\<rparr>, json 200 (JObj t'))"
    using get by (simp add: task_get_def)
  with bound n(2) upd fields show ?thesis by blast
qed

theorem update_then_get_witness:
  "List.find (id_is (Some 1)) (tasks one_task) = Some (hd (tasks one_task)) \<and>
   distinct (map fst [(''status'', JStr ''Completed'')]) \<and>
   map_of [(''status'', JStr ''Completed'')] ''id'' = None \<and>
   (\<exists>n t'. n < length (tasks one_task) \<and> tasks one_task ! n = hd (tasks one_task) \<and>
      task_update one_task (Some 1) [(''status'', JStr ''Completed'')]
        = (one_task\<lparr>tasks := (tasks one_task)[n := t']\<rparr>, json 200 (JObj t')) \<and>
      task_get (one_task\<lparr>tasks := (tasks one_task)[n := t']\<rparr>) (Some 1)
        = (one_task\<lparr>tasks := (tasks one_task)[n := t']\<rparr>, json 200 (JObj t')) \<and>
      (\<forall>k. get_prop t' k =
         (case map_of [(''status'', JStr ''Completed'')] k of
            Some x \<Rightarrow> x | None \<Rightarrow> get_prop (hd (tasks one_task)) k)))"
proof -
  have found: "List.find (id_is (Some 1)) (tasks one_task) = Some (hd (tasks one_task))"
    by (simp add: tasks_one_task id_is_def)
  have dist: "distinct (map fst [(''status'', JStr ''Completed'')])"
    by simp
  have keep: "map_of [(''status'', JStr ''Completed'')] ''id'' = None"
    by simp
  from update_then_get [OF found dist disjI1 [OF keep]] found dist keep
  show ?thesis by blast
qed

section \<open>Deleting a task\<close>

text \<open>
  C9.  The claim: in every registry that contains a task with id \<open>i\<close>, deleting \<open>i\<close>
  answers 204, after which fetching \<open>i\<close> and deleting \<open>i\<close> again answer 404.  The handler
  removes the first task with that id only.  An update may overwrite \<^verbatim>\<open>id\<close>, so two
  tasks can carry the same id: after two creates and the update of task 2 with
  \<^verbatim>\<open>{id: 1}\<close>, deleting 1 answers 204, fetching 1 then answers 200 and deleting 1 again
  answers 204.
\<close>

theorem delete_duplicate_id_counterexample:
  "list_ex (id_is (Some 1)) (tasks duplicate_ids) \<and>
   snd (task_delete duplicate_ids (Some 1)) = sendStatus 204 \<and>
   status (snd (task_get (fst (task_delete duplicate_ids (Some 1))) (Some 1))) = 200 \<and>
   status (snd (task_delete (fst (task_delete duplicate_ids (Some 1))) (Some 1))) = 204"
  by (simp add: duplicate_ids_def init_def task_create_def task_update_def task_delete_def
      task_get_def id_is_def spread_def splice1_def json_def sendStatus_def Let_def)

text \<open>
  C9, amended.  In every registry in which exactly one task has id \<open>i\<close>, deleting \<open>i\<close>
  answers 204 without body and removes that task and nothing else; in the resulting
  registry fetching \<open>i\<close> answers 404, and deleting \<open>i\<close> again answers 404 and leaves
  the state as it is.
\<close>

theorem delete_then_get:
  assumes once: "length (filter (id_is (Some i)) (tasks s)) = 1"
  shows "\<exists>n. n < length (tasks s) \<and> id_is (Some i) (tasks s ! n) \<and>
           task_delete s (Some i) = (s\<lparr>tasks := splice1 n (tasks s)\<rparr>, sendStatus 204) \<and>
           task_get (s\<lparr>tasks := splice1 n (tasks s)\<rparr>) (Some i)
             = (s\<lparr>tasks := splice1 n (tasks s)\<rparr>, not_found) \<and>
           task_delete (s\<lparr>tasks := splice1 n (tasks s)\<rparr>) (Some i)
             = (s\<lparr>tasks := splice1 n (tasks s)\<rparr>, not_found)"
proof -
  let ?P = "id_is (Some i)"
  from once have "filter ?P (tasks s) \<noteq> []" by auto
  then have "\<not> (\<forall>x\<in>set (tasks s). \<not> ?P x)"
    by (simp add: filter_empty_conv)
  then obtain n where n: "findIndex ?P (tasks s) = Some n"
    using findIndex_None [of ?P "tasks s"] by (cases "findIndex ?P (tasks s)") auto
  from findIndex_Some [OF n] have bound: "n < length (tasks s)" "?P (tasks s ! n)" by auto
  have "filter ?P (splice1 n (tasks s)) = []"
    using filter_splice1 [OF n] once by (cases "filter ?P (tasks s)") auto
  then have gone: "findIndex ?P (splice1 n (tasks s)) = None"
    by (simp add: findIndex_None filter_empty_conv)
  have del: "task_delete s (Some i) = (s\<lparr>tasks := splice1 n (tasks s)\<rparr>, sendStatus 204)"
    using n by (simp add: task_delete_def)
  have get: "task_get (s\<lparr>tasks := splice1 n (tasks s)\<rparr>) (Some i)
               = (s\<lparr>tasks := splice1 n (tasks s)\<rparr>, not_found)"
    using gone by (simp add: task_get_def find_findIndex)
  have "task_delete (s\<lparr>tasks := splice1 n (tasks s)\<rparr>) (Some i)
               = (s\<lparr>tasks := splice1 n (tasks s)\<rparr>, not_found)"
    using gone by (simp add: task_delete_def)
  with bound del get show ?thesis by blast
qed

theorem delete_then_get_witness:
  "length (filter (id_is (Some 1)) (tasks one_task)) = 1 \<and>
   (\<exists>n. n < length (tasks one_task) \<and> id_is (Some 1) (tasks one_task ! n) \<and>
      task_delete one_task (Some 1) = (one_task\<lparr>tasks := splice1 n (tasks one_task)\<rparr>, sendStatus 204) \<and>
      task_get (one_task\<lparr>tasks := splice1 n (tasks one_task)\<rparr>) (Some 1)
        = (one_task\<lparr>tasks := splice1 n (tasks one_task)\<rparr>, not_found) \<and>
      task_delete (one_task\<lparr>tasks := splice1 n (tasks one_task)\<rparr>) (Some 1)
        = (one_task\<lparr>tasks := splice1 n (tasks one_task)\<rparr>, not_found))"
proof -
  have once: "length (filter (id_is (Some 1)) (tasks one_task)) = 1"
    by (simp add: tasks_one_task id_is_def)
  from delete_then_get [OF once] once show ?thesis by blast
qed

section \<open>Registration and login\<close>

text \<open>
  C5.  The claim: for every store that does not contain username \<open>u\<close> and every
  non-empty password, registering \<open>u\<close> answers 201 and a login with the same
  credentials then answers 200.  The handler rejects an empty username like a
  missing one: registering the username \<^verbatim>\<open>""\<close>, which the empty store does not contain,
  with the password \<^verbatim>\<open>secret\<close> answers 400.
\<close>

theorem register_empty_username_counterexample:
  "\<not> list_ex (\<lambda>user. strict_eq (get_prop user ''username'') (JStr '''')) (readUsers init) \<and>
   ''secret'' \<noteq> '''' \<and>
   snd (register stub_bcrypt 0 init (creds '''' ''secret''))
     = json 400 (message ''Username and password are required'')"
  by (simp add: register_def Let_def)

text \<open>
  C5, amended.  For every store that contains no record with username \<open>u\<close>, every
  non-empty username \<open>u\<close> and every non-empty password \<open>p\<close>, registering \<open>(u, p)\<close> answers
  201, and a login with \<open>(u, p)\<close> on the resulting store answers 200; \<^verbatim>\<open>bcrypt\<close> is
  assumed to verify every password against the hashes it makes of it.
\<close>

theorem register_then_login:
  assumes bc: "bcrypt_verifies B"
    and u: "u \<noteq> ''''" and p: "p \<noteq> ''''"
    and fresh: "\<not> list_ex (\<lambda>user. strict_eq (get_prop user ''username'') (JStr u)) (readUsers s)"
  shows "snd (register B salt s (creds u p)) = json 201 (message ''User registered successfully'') \<and>
         snd (login B (fst (register B salt s (creds u p))) (creds u p))
           = json 200 (message ''Login successful'')"
proof -
  define new where "new = [(''username'', JStr u), (''password'', JStr (hashSync B p 10 salt))]"
  define s' where "s' = writeUsers (readUsers s @ [new]) s"
  have reg: "register B salt s (creds u p)
               = (s', json 201 (message ''User registered successfully''))"
    using u p fresh by (simp add: register_def Let_def s'_def new_def)
  define P where "P = (\<lambda>user. strict_eq (get_prop user ''username'') (JStr u))"
  have "\<not> list_ex P (readUsers s)" and "P new"
    using fresh by (simp_all add: P_def new_def)
  then have "List.find P (readUsers s @ [new]) = Some new"
    by (rule find_append_new)
  then have found: "List.find (\<lambda>user. strict_eq (get_prop user ''username'') (JStr u)) (readUsers s') = Some new"
    by (simp only: P_def s'_def readUsers_writeUsers)
  have pw: "get_prop new ''password'' = JStr (hashSync B p 10 salt)"
    by (simp add: new_def)
  have ok: "compareSync B p (hashSync B p 10 salt)"
    using bc by (simp add: bcrypt_verifies_def)
  have "login B s' (creds u p) = (s', json 200 (message ''Login successful''))"
    unfolding login_def Let_def get_prop_creds using u p
    by (simp add: found pw ok del: strict_eq_JStr)
  with reg show ?thesis by simp
qed

theorem register_then_login_witness:
  "bcrypt_verifies stub_bcrypt \<and> ''bob'' \<noteq> '''' \<and> ''hunter2'' \<noteq> '''' \<and>
   \<not> list_ex (\<lambda>user. strict_eq (get_prop user ''username'') (JStr ''bob'')) (readUsers alice_registered) \<and>
   status (snd (register stub_bcrypt 7 alice_registered (creds ''bob'' ''hunter2''))) = 201 \<and>
   status (snd (login stub_bcrypt (fst (register stub_bcrypt 7 alice_registered (creds ''bob'' ''hunter2'')))
     (creds ''bob'' ''hunter2''))) = 200"
proof -
  have bc: "bcrypt_verifies stub_bcrypt"
    by (simp add: bcrypt_verifies_def stub_bcrypt_def)
  have fresh: "\<not> list_ex (\<lambda>user. strict_eq (get_prop user ''username'') (JStr ''bob''))
                 (readUsers alice_registered)"
    by (simp add: readUsers_alice_registered)
  show ?thesis
    using bc fresh register_then_login [OF bc _ _ fresh, of "''hunter2''" 7]
    by (simp add: json_def)
qed

text \<open>
  C6.  The claim: a login with a known username and a wrong password and a login
  with an unknown username both answer 401 with the same body, so that the caller
  cannot tell the two causes apart.  The handler answers both with the same message,
  but \<^verbatim>\<open>bcrypt.compareSync\<close> is reached only when the username is known, and it throws
  on a password that is not a string.  With alice registered, the login of alice with
  the password \<^verbatim>\<open>5\<close> answers 500 from the error middleware, while the login of the
  unknown bob with the same password answers 401: the status tells whether the
  username exists.
\<close>

theorem login_nonstring_password_leak:
  "List.find (\<lambda>x. strict_eq (get_prop x ''username'') (JStr ''alice'')) (readUsers alice_registered)
     = Some [(''username'', JStr ''alice''), (''password'', JStr ''$secret'')] \<and>
   List.find (\<lambda>x. strict_eq (get_prop x ''username'') (JStr ''bob'')) (readUsers alice_registered) = None \<and>
   login stub_bcrypt alice_registered [(''username'', JStr ''alice''), (''password'', JNum 5)]
     = (alice_registered, json 500 (message ''Internal Server Error'')) \<and>
   login stub_bcrypt alice_registered [(''username'', JStr ''bob''), (''password'', JNum 5)]
     = (alice_registered, json 401 (message ''Invalid username or password''))"
  by (simp add: readUsers_alice_registered login_def internal_error_def Let_def)

theorem login_nonstring_password_leak_witness:
  "status (snd (login stub_bcrypt alice_registered
      [(''username'', JStr ''alice''), (''password'', JNum 5)])) = 500 \<and>
   status (snd (login stub_bcrypt alice_registered
      [(''username'', JStr ''bob''), (''password'', JNum 5)])) = 401 \<and>
   snd (login stub_bcrypt alice_registered [(''username'', JStr ''alice''), (''password'', JNum 5)])
     \<noteq> snd (login stub_bcrypt alice_registered [(''username'', JStr ''bob''), (''password'', JNum 5)])"
  using login_nonstring_password_leak by (simp add: json_def)

text \<open>
  The same holds in every store and for every \<^verbatim>\<open>bcrypt\<close>: a truthy password that is
  not a string is answered with 401 when the username is unknown and with 500 when
  it is known.
\<close>

lemma login_nonstring_password:
  assumes "truthy pw" and "\<forall>p. pw \<noteq> JStr p" and "u \<noteq> ''''"
  shows "login B s [(''username'', JStr u), (''password'', pw)] =
    (case List.find (\<lambda>x. strict_eq (get_prop x ''username'') (JStr u)) (readUsers s) of
       None \<Rightarrow> (s, json 401 (message ''Invalid username or password''))
     | Some user \<Rightarrow> (s, internal_error))"
  using assms by (cases pw) (auto simp: login_def Let_def split: option.splits jsval.splits)

text \<open>
  When both passwords are non-empty strings and the stored hash is a string, the two
  failures do get one and the same response, and the state stays as it is.
\<close>

lemma login_failures_same_response:
  assumes known: "List.find (\<lambda>x. strict_eq (get_prop x ''username'') (JStr u1)) (readUsers s) = Some user"
    and hash: "get_prop user ''password'' = JStr h"
    and wrong: "\<not> compareSync B p1 h"
    and unknown: "List.find (\<lambda>x. strict_eq (get_prop x ''username'') (JStr u2)) (readUsers s) = None"
    and supplied: "u1 \<noteq> ''''" "p1 \<noteq> ''''" "u2 \<noteq> ''''" "p2 \<noteq> ''''"
  shows "login B s (creds u1 p1) = (s, json 401 (message ''Invalid username or password'')) \<and>
         login B s (creds u2 p2) = (s, json 401 (message ''Invalid username or password''))"
  unfolding login_def Let_def get_prop_creds using supplied wrong
  by (simp add: known hash unknown del: strict_eq_JStr)

lemma login_failures_same_response_example:
  "List.find (\<lambda>x. strict_eq (get_prop x ''username'') (JStr ''alice'')) (readUsers alice_registered)
     = Some [(''username'', JStr ''alice''), (''password'', JStr ''$secret'')] \<and>
   \<not> compareSync stub_bcrypt ''guess'' ''$secret'' \<and>
   List.find (\<lambda>x. strict_eq (get_prop x ''username'') (JStr ''bob'')) (readUsers alice_registered) = None \<and>
   snd (login stub_bcrypt alice_registered (creds ''alice'' ''guess''))
     = snd (login stub_bcrypt alice_registered (creds ''bob'' ''anything'')) \<and>
   status (snd (login stub_bcrypt alice_registered (creds ''alice'' ''guess''))) = 401"
proof -
  have known: "List.find (\<lambda>x. strict_eq (get_prop x ''username'') (JStr ''alice'')) (readUsers alice_registered)
     = Some [(''username'', JStr ''alice''), (''password'', JStr ''$secret'')]"
    by (simp add: readUsers_alice_registered)
  have unknown: "List.find (\<lambda>x. strict_eq (get_prop x ''username'') (JStr ''bob'')) (readUsers alice_registered) = None"
    by (simp add: readUsers_alice_registered)
  have wrong: "\<not> compareSync stub_bcrypt ''guess'' ''$secret''"
    by (simp add: stub_bcrypt_def)
  have hash: "get_prop [(''username'', JStr ''alice''), (''password'', JStr ''$secret'')] ''password''
     = JStr ''$secret''"
    by simp
  show ?thesis
    using known unknown wrong
      login_failures_same_response [OF known hash wrong unknown, where ?p2.0 = "''anything''"]
    by (simp add: json_def)
qed

text \<open>
  C7.  The claim: registering a username that the store contains answers 409 for
  every password.  The presence check comes before the lookup: with alice registered,
  registering alice with the empty password answers 400.
\<close>

theorem register_empty_password_counterexample:
  "list_ex (\<lambda>user. strict_eq (get_prop user ''username'') (JStr ''alice'')) (readUsers alice_registered) \<and>
   snd (register stub_bcrypt 3 alice_registered (creds ''alice'' ''''))
     = json 400 (message ''Username and password are required'')"
  by (simp add: readUsers_alice_registered register_def Let_def)

text \<open>
  C7, amended.  For every store that contains a record with the non-empty username
  \<open>u\<close> and every non-empty password \<open>p\<close>, registering \<open>(u, p)\<close> answers 409 and leaves the
  state, the stored user list included, as it is.
\<close>

theorem register_existing_username:
  assumes "list_ex (\<lambda>user. strict_eq (get_prop user ''username'') (JStr u)) (readUsers s)"
    and "u \<noteq> ''''" and "p \<noteq> ''''"
  shows "register B salt s (creds u p) = (s, json 409 (message ''Username already exists''))"
  using assms by (simp add: register_def Let_def)

theorem register_existing_username_witness:
  "list_ex (\<lambda>user. strict_eq (get_prop user ''username'') (JStr ''alice'')) (readUsers alice_registered) \<and>
   ''alice'' \<noteq> '''' \<and> ''other'' \<noteq> '''' \<and>
   register stub_bcrypt 3 alice_registered (creds ''alice'' ''other'')
     = (alice_registered, json 409 (message ''Username already exists''))"
proof -
  have ex: "list_ex (\<lambda>user. strict_eq (get_prop user ''username'') (JStr ''alice'')) (readUsers alice_registered)"
    by (simp add: readUsers_alice_registered)
  show ?thesis
    using ex register_existing_username [OF ex, of "''other''" stub_bcrypt 3] by simp
qed

text \<open>
  C8.  A registration or login request whose body has no \<^verbatim>\<open>username\<close> field or no
  \<^verbatim>\<open>password\<close> field answers 400, and the state (the stored user list and the task
  registry) is the one before the request.
\<close>

theorem missing_field_rejected:
  assumes "map_of reqBody ''username'' = None \<or> map_of reqBody ''password'' = None"
  shows "register B salt s reqBody = (s, json 400 (message ''Username and password are required'')) \<and>
         login B s reqBody = (s, json 400 (message ''Username and password are required''))"
  using assms by (auto simp: register_def login_def get_prop_def Let_def)

theorem missing_field_rejected_witness:
  "(map_of [(''username'', JStr ''alice'')] ''username'' = None
      \<or> map_of [(''username'', JStr ''alice'')] ''password'' = None) \<and>
   register stub_bcrypt 0 alice_registered [(''username'', JStr ''alice'')]
     = (alice_registered, json 400 (message ''Username and password are required'')) \<and>
   login stub_bcrypt alice_registered [(''username'', JStr ''alice'')]
     = (alice_registered, json 400 (message ''Username and password are required''))"
  using missing_field_rejected [of "[(''username'', JStr ''alice'')]" stub_bcrypt 0 alice_registered]
  by simp

end
